theory Spec2Isabelle
  imports Main
begin

section \<open>JavaScript values used by the planner\<close>

text \<open>
  The planner is a single React component (\<open>DailyTaskPlannerV2\<close>) that exists in two
  versions in the repository: an older JavaScript one and a newer TypeScript one.
  Both share the helper functions; they differ in \<open>addOrUpdateTask\<close>.

  A JavaScript \<open>number\<close> is modelled as an integer or \<open>NaN\<close>; \<open>null\<close> is \<open>None\<close>.
  The integer is exact, which agrees with the double arithmetic of the source for every
  magnitude below \<open>2^53\<close>; clock strings and durations in minutes are far below that.
  Beyond that magnitude the source rounds, and a run of more than 308 digits gives an
  infinity, which this type does not have: such inputs are outside the model.
  Numbers with a fraction are outside the model: the form reads the duration from two
  numeric inputs of step 1, and a fractional duration can only come from a CSV file.
  Strings are lists of 8-bit code units. The store is a map of its own keys; properties
  that a JavaScript object inherits (a key such as \<open>constructor\<close>) are not modelled.
\<close>

datatype number = Fin int | NaN

fun num_add :: "number \<Rightarrow> number \<Rightarrow> number" where
  "num_add (Fin a) (Fin b) = Fin (a + b)"
| "num_add _ _ = NaN"

fun num_mul :: "number \<Rightarrow> number \<Rightarrow> number" where
  "num_mul (Fin a) (Fin b) = Fin (a * b)"
| "num_mul _ _ = NaN"

text \<open>Relational comparison \<open>a < b\<close>: \<open>null\<close> converts to \<open>0\<close>, and any comparison
  with \<open>NaN\<close> is false.\<close>

fun to_number :: "number option \<Rightarrow> number" where
  "to_number None = Fin 0"
| "to_number (Some n) = n"

fun num_lt :: "number \<Rightarrow> number \<Rightarrow> bool" where
  "num_lt (Fin a) (Fin b) = (a < b)"
| "num_lt _ _ = False"

fun num_ge :: "number \<Rightarrow> number \<Rightarrow> bool" where
  "num_ge (Fin a) (Fin b) = (a \<ge> b)"
| "num_ge _ _ = False"

definition js_lt :: "number option \<Rightarrow> number option \<Rightarrow> bool" where
  "js_lt a b = num_lt (to_number a) (to_number b)"

text \<open>The remainder \<open>a % b\<close> on integers with \<open>b \<noteq> 0\<close>: the quotient is truncated, so the
  result has the sign of \<open>a\<close>.\<close>

definition js_rem :: "int \<Rightarrow> int \<Rightarrow> int" where
  "js_rem a b = sgn a * (\<bar>a\<bar> mod \<bar>b\<bar>)"

subsection \<open>Strings\<close>

text \<open>White space as \<open>parseInt\<close>, \<open>Number\<close> and \<open>String.prototype.trim\<close> skip it:
  tab, line feed, vertical tab, form feed, carriage return, space and no-break space
  (the white space and line terminators that fit in one 8-bit code unit).\<close>

definition is_space :: "char \<Rightarrow> bool" where
  "is_space c \<longleftrightarrow>
     c = CHR 0x09 \<or> c = CHR 0x0A \<or> c = CHR 0x0B \<or> c = CHR 0x0C \<or> c = CHR 0x0D \<or>
     c = CHR 0x20 \<or> c = CHR 0xA0"

definition trim :: "string \<Rightarrow> string" where
  "trim s = rev (dropWhile is_space (rev (dropWhile is_space s)))"

text \<open>Decimal digits and their values; the code unit of the digit \<open>0\<close> is 48.\<close>

definition digit_chars :: "char list" where
  "digit_chars = ''0123456789''"

definition is_digit :: "char \<Rightarrow> bool" where
  "is_digit c \<longleftrightarrow> c \<in> set digit_chars"

definition digit_val :: "char \<Rightarrow> int" where
  "digit_val c = of_char c - 48"

definition digit_char :: "nat \<Rightarrow> char" where
  "digit_char n = digit_chars ! (n mod 10)"

text \<open>The value of a digit string, most significant digit first.\<close>

fun digits_val :: "int \<Rightarrow> string \<Rightarrow> int" where
  "digits_val acc [] = acc"
| "digits_val acc (c # cs) = digits_val (acc * 10 + digit_val c) cs"

text \<open>\<open>parseInt(s, 10)\<close>: skip leading white space, read an optional sign, then the
  longest prefix of decimal digits; \<open>NaN\<close> when there is no digit. With the radix given
  as 10 no \<open>0x\<close> prefix is recognised.\<close>

definition parseInt :: "string \<Rightarrow> number" where
  "parseInt s =
     (let t = dropWhile is_space s;
          neg = (case t of [] \<Rightarrow> False | c # _ \<Rightarrow> c = CHR ''-'');
          r = (case t of [] \<Rightarrow> [] | c # cs \<Rightarrow> if c = CHR ''-'' \<or> c = CHR ''+'' then cs else t);
          ds = takeWhile is_digit r
      in if ds = [] then NaN
         else Fin ((if neg then - 1 else 1) * digits_val 0 ds))"

text \<open>\<open>Number.prototype.toString()\<close> on an integer.\<close>

fun digits :: "nat \<Rightarrow> string" where
  "digits n = (if n < 10 then [digit_char n] else digits (n div 10) @ [digit_char n])"

declare digits.simps [simp del]

definition toString :: "int \<Rightarrow> string" where
  "toString i = (if i < 0 then CHR ''-'' # digits (nat (- i)) else digits (nat i))"

text \<open>\<open>s.padStart(n, c)\<close> with a one-character pad string.\<close>

definition padStart :: "nat \<Rightarrow> char \<Rightarrow> string \<Rightarrow> string" where
  "padStart n c s = replicate (n - length s) c @ s"

text \<open>\<open>s.split(sep)\<close> with a one-character separator: the result is never empty, and
  \<open>''''\<close> splits into one empty segment. The segment being read is accumulated in
  reverse.\<close>

fun split_acc :: "char \<Rightarrow> string \<Rightarrow> string \<Rightarrow> string list" where
  "split_acc sep cur [] = [rev cur]"
| "split_acc sep cur (c # cs) =
     (if c = sep then rev cur # split_acc sep [] cs else split_acc sep (c # cur) cs)"

definition str_split :: "char \<Rightarrow> string \<Rightarrow> string list" where
  "str_split sep s = split_acc sep [] s"

text \<open>\<open>x || d\<close> on a possibly missing string: \<open>undefined\<close> and \<open>''''\<close> are falsy.\<close>

fun or_str :: "string option \<Rightarrow> string \<Rightarrow> string" where
  "or_str None d = d"
| "or_str (Some s) d = (if s = [] then d else s)"

text \<open>Reading an array position that may not exist (\<open>undefined\<close> is \<open>None\<close>).\<close>

fun nth_opt :: "'a list \<Rightarrow> nat \<Rightarrow> 'a option" where
  "nth_opt [] _ = None"
| "nth_opt (x # xs) 0 = Some x"
| "nth_opt (x # xs) (Suc n) = nth_opt xs n"

text \<open>A two-digit decimal field, as the clock strings are built from.\<close>

definition two_digits :: "nat \<Rightarrow> string" where
  "two_digits n = [digit_char (n div 10), digit_char n]"

section \<open>Time conversion\<close>

text \<open>
  \<^verbatim>\<open>
  function timeToMinutes(timeStr?: string | null): number | null {
    if (!timeStr) return null;
    const [hh, mm] = timeStr.split(":");
    return parseInt(hh || "0", 10) * 60 + parseInt(mm || "0", 10);
  }
  \<close>
  Every call site passes a string, so the argument is a string here; the empty string is
  the only falsy one.
\<close>

definition timeToMinutes :: "string \<Rightarrow> number option" where
  "timeToMinutes timeStr =
     (if timeStr = [] then None
      else let segs = str_split CHR '':'' timeStr;
               hh = nth_opt segs 0;
               mm = nth_opt segs 1
           in Some (num_add (num_mul (parseInt (or_str hh ''0'')) (Fin 60))
                            (parseInt (or_str mm ''0''))))"

text \<open>
  \<^verbatim>\<open>
  function minutesToTime(mins: number | null | undefined): string {
    if (mins == null || isNaN(mins as number)) return "--:--";
    let m = mins as number;
    if (m < 0) m = 0;
    if (m > 24 * 60) m = 24 * 60;
    const h = Math.floor(m / 60).toString().padStart(2, "0");
    const mm = Math.floor(m % 60).toString().padStart(2, "0");
    if (h === "24") return "23:59";
    return `${h}:${mm}`;
  }
  \<close>
  After the two clamps \<open>m\<close> is in \<open>[0, 1440]\<close>, where flooring the quotient is \<open>div\<close> and
  the remainder is \<open>mod\<close>.
\<close>

definition minutesToTime :: "number option \<Rightarrow> string" where
  "minutesToTime mins =
     (case mins of
        None \<Rightarrow> ''--:--''
      | Some NaN \<Rightarrow> ''--:--''
      | Some (Fin m0) \<Rightarrow>
          (let m1 = (if m0 < 0 then 0 else m0);
               m = (if m1 > 24 * 60 then 24 * 60 else m1);
               h = padStart 2 CHR ''0'' (toString (m div 60));
               mm = padStart 2 CHR ''0'' (toString (m mod 60))
           in if h = ''24'' then ''23:59'' else h @ '':'' @ mm))"

section \<open>Tasks and the component state\<close>

text \<open>
  \<^verbatim>\<open>
  interface Task {
    id: string; name: string; durationMinutes: number;
    startTime: string; endTime: string; done: boolean;
  }
  type DataMap = Record<string, Task[]>;
  \<close>
  The fields of a task carry the prefix \<open>t_\<close> and those of a pending form the prefix
  \<open>p_\<close>, since the form state of the component uses the same names. Durations are
  integers: the form computes them from two numeric inputs of step 1, and the CSV import
  stores \<open>Number(x) || 0\<close>.
\<close>

record task =
  t_id :: string
  t_name :: string
  t_durationMinutes :: int
  t_startTime :: string
  t_endTime :: string
  t_done :: bool

type_synonym DataMap = "string \<rightharpoonup> task list"

text \<open>
  \<^verbatim>\<open>
  type PendingForm = {
    name: string; durationMinutes: number; startTime: string; endTime: string;
    isEdit: boolean; editId?: string | null;
  } | null;
  \<close>
\<close>

record pending =
  p_name :: string
  p_durationMinutes :: int
  p_startTime :: string
  p_endTime :: string
  p_isEdit :: bool
  p_editId :: "string option"

datatype view = Today | History

text \<open>The \<open>useState\<close> cells of the component that the handlers read or write.\<close>

record state =
  data :: DataMap
  currentDate :: string
  name :: string
  durHours :: int
  durMinutes :: int
  startTime :: string
  error :: string
  view :: view
  editTask :: "task option"
  bedtimeModalOpen :: bool
  pendingForm :: "pending option"

text \<open>The messages passed to \<open>setError\<close>, under the names of the error taxonomy.\<close>

definition EmptyName :: string where
  "EmptyName = ''Give the task a name.''"

definition MissingStartTime :: string where
  "MissingStartTime = ''Pick a start time.''"

definition NonPositiveDuration :: string where
  "NonPositiveDuration = ''Duration must be greater than 0.''"

definition OverflowPastMidnight :: string where
  "OverflowPastMidnight =
     ''Task would end past midnight. Pick a shorter duration or earlier start.''"

definition OutOfOrderStart :: string where
  "OutOfOrderStart =
     ''Start time cannot be earlier than the previous task'' @ [CHR 0x27] @ ''s end time.''"

text \<open>A read of a property of \<open>undefined\<close> throws.\<close>

datatype js_error = TypeError

text \<open>\<open>const tasksForDate = (date) => data[date] || []\<close>\<close>

definition tasksForDate :: "state \<Rightarrow> string \<Rightarrow> task list" where
  "tasksForDate s date = (case data s date of None \<Rightarrow> [] | Some l \<Rightarrow> l)"

text \<open>
  \<^verbatim>\<open>
  const previousEndMinutes = (() => {
    const list = tasksForDate(currentDate);
    return list.length ? timeToMinutes(list[list.length - 1].endTime) : null;
  })();
  \<close>
\<close>

definition previousEndMinutes :: "state \<Rightarrow> number option" where
  "previousEndMinutes s =
     (let list = tasksForDate s (currentDate s)
      in if list \<noteq> [] then timeToMinutes (t_endTime (last list)) else None)"

section \<open>Validation and commit\<close>

text \<open>
  \<^verbatim>\<open>
  function calcEndTimeFromStart(startStr: string, durMin: number): string | null {
    const startMin = timeToMinutes(startStr);
    if (startMin == null || isNaN(startMin)) return null;
    const endMin = startMin + durMin;
    if (endMin > 24 * 60) return null; // goes past day
    return minutesToTime(endMin);
  }
  \<close>
\<close>

definition calcEndTimeFromStart :: "string \<Rightarrow> int \<Rightarrow> string option" where
  "calcEndTimeFromStart startStr durMin =
     (case timeToMinutes startStr of
        None \<Rightarrow> None
      | Some NaN \<Rightarrow> None
      | Some (Fin startMin) \<Rightarrow>
          (let endMin = startMin + durMin
           in if endMin > 24 * 60 then None else Some (minutesToTime (Some (Fin endMin)))))"

text \<open>
  \<open>commitTask(form)\<close> of the TypeScript component. The fresh identifier
  \<open>String(Date.now()) + Math.random().toString(36).slice(2, 7)\<close> is the parameter
  \<open>newId\<close>. The edit branch is taken when \<open>form.isEdit && form.editId\<close>, that is,
  when the identifier is neither \<open>null\<close> nor empty; \<open>edit_target\<close> is that test.
\<close>

definition edit_target :: "pending \<Rightarrow> string option" where
  "edit_target form =
     (if p_isEdit form
      then (case p_editId form of
              None \<Rightarrow> None
            | Some eid \<Rightarrow> if eid = [] then None else Some eid)
      else None)"

definition commitTask :: "string \<Rightarrow> state \<Rightarrow> pending \<Rightarrow> state" where
  "commitTask newId s form =
     (let list = tasksForDate s (currentDate s);
          s1 = (case edit_target form of
                  Some eid \<Rightarrow>
                    (let updated = map (\<lambda>t. if t_id t = eid
                               then t\<lparr>t_name := trim (p_name form),
                                      t_durationMinutes := p_durationMinutes form,
                                      t_startTime := p_startTime form,
                                      t_endTime := p_endTime form\<rparr>
                               else t) list
                     in s\<lparr>data := (data s)(currentDate s \<mapsto> updated), editTask := None\<rparr>)
                | None \<Rightarrow>
                    s\<lparr>data := (data s)(currentDate s \<mapsto> tasksForDate s (currentDate s) @
                           [\<lparr>t_id = newId, t_name = trim (p_name form),
                             t_durationMinutes = p_durationMinutes form,
                             t_startTime = p_startTime form, t_endTime = p_endTime form,
                             t_done = False\<rparr>]),
                      startTime := p_endTime form\<rparr>)
      in s1\<lparr>name := [], durHours := 0, durMinutes := 30,
             pendingForm := None, bedtimeModalOpen := False\<rparr>)"

text \<open>The form object that \<open>addOrUpdateTask\<close> builds from the form state and the
  computed end time; \<open>editId\<close> is \<open>editTask?.id ?? null\<close>.\<close>

definition proposal :: "state \<Rightarrow> string \<Rightarrow> pending" where
  "proposal s endT =
     \<lparr>p_name = name s, p_durationMinutes = durHours s * 60 + durMinutes s,
      p_startTime = startTime s, p_endTime = endT,
      p_isEdit = (editTask s \<noteq> None), p_editId = map_option t_id (editTask s)\<rparr>"

text \<open>
  \<open>addOrUpdateTask\<close> of the TypeScript component: the field checks, the end time, the
  bedtime gate at \<open>22 * 60\<close>, then the commit. \<open>timeToMinutes(endTime) ?? 0\<close> replaces
  only \<open>null\<close>.
\<close>

definition addOrUpdateTask :: "string \<Rightarrow> state \<Rightarrow> state" where
  "addOrUpdateTask newId s =
     (let s0 = s\<lparr>error := []\<rparr>;
          duration = durHours s * 60 + durMinutes s
      in if trim (name s) = [] then s0\<lparr>error := EmptyName\<rparr>
         else if startTime s = [] then s0\<lparr>error := MissingStartTime\<rparr>
         else if duration \<le> 0 then s0\<lparr>error := NonPositiveDuration\<rparr>
         else (case calcEndTimeFromStart (startTime s) duration of
                 None \<Rightarrow> s0\<lparr>error := OverflowPastMidnight\<rparr>
               | Some endT \<Rightarrow>
                   if endT = [] then s0\<lparr>error := OverflowPastMidnight\<rparr>
                   else (let endMin = (case timeToMinutes endT of None \<Rightarrow> Fin 0 | Some n \<Rightarrow> n)
                         in if num_ge endMin (Fin (22 * 60))
                            then s0\<lparr>pendingForm := Some (proposal s endT),
                                    bedtimeModalOpen := True\<rparr>
                            else commitTask newId s0 (proposal s endT))))"

definition handleModalConfirm :: "string \<Rightarrow> state \<Rightarrow> state" where
  "handleModalConfirm newId s =
     (case pendingForm s of None \<Rightarrow> s | Some form \<Rightarrow> commitTask newId s form)"

definition handleModalCancel :: "state \<Rightarrow> state" where
  "handleModalCancel s = s\<lparr>pendingForm := None, bedtimeModalOpen := False\<rparr>"

text \<open>
  \<open>addOrUpdateTask\<close> of the JavaScript component: no bedtime gate, but a new task
  must not start before the end of the last task of the day.
  \<^verbatim>\<open>
    if (!editTask && list.length &&
        startMin < timeToMinutes(list[list.length - 1].endTime)) {
      return setError("Start time cannot be earlier than the previous task's end time.");
    }
  \<close>
\<close>

definition addOrUpdateTask_js :: "string \<Rightarrow> state \<Rightarrow> state" where
  "addOrUpdateTask_js newId s =
     (let s0 = s\<lparr>error := []\<rparr>;
          duration = durHours s * 60 + durMinutes s
      in if trim (name s) = [] then s0\<lparr>error := EmptyName\<rparr>
         else if startTime s = [] then s0\<lparr>error := MissingStartTime\<rparr>
         else if duration \<le> 0 then s0\<lparr>error := NonPositiveDuration\<rparr>
         else
          (let startMin = timeToMinutes (startTime s);
               list = tasksForDate s (currentDate s)
           in if editTask s = None \<and> list \<noteq> [] \<and>
                 js_lt startMin (timeToMinutes (t_endTime (last list)))
              then s0\<lparr>error := OutOfOrderStart\<rparr>
              else (case calcEndTimeFromStart (startTime s) duration of
                      None \<Rightarrow> s0\<lparr>error := OverflowPastMidnight\<rparr>
                    | Some endT \<Rightarrow>
                        if endT = [] then s0\<lparr>error := OverflowPastMidnight\<rparr>
                        else
                         (let s1 = (case editTask s of
                                Some et \<Rightarrow>
                                  s0\<lparr>data := (data s)(currentDate s \<mapsto>
                                         map (\<lambda>t. if t_id t = t_id et
                                                  then t\<lparr>t_name := trim (name s),
                                                         t_durationMinutes := duration,
                                                         t_startTime := startTime s,
                                                         t_endTime := endT\<rparr>
                                                  else t) list),
                                      editTask := None\<rparr>
                              | None \<Rightarrow>
                                  s0\<lparr>data := (data s)(currentDate s \<mapsto>
                                         tasksForDate s (currentDate s) @
                                         [\<lparr>t_id = newId, t_name = trim (name s),
                                           t_durationMinutes = duration,
                                           t_startTime = startTime s, t_endTime = endT,
                                           t_done = False\<rparr>]),
                                      startTime := endT\<rparr>)
                          in s1\<lparr>name := [], durHours := 0, durMinutes := 30\<rparr>))))"

section \<open>The other handlers of the day store\<close>

text \<open>
  \<^verbatim>\<open>
  function toggleDone(date: string, id: string) {
    setData((d) => ({
      ...d,
      [date]: d[date].map((t) => (t.id === id ? { ...t, done: !t.done } : t)),
    }));
  }
  function removeTask(date: string, id: string) {
    setData((d) => ({ ...d, [date]: d[date].filter((t) => t.id !== id) }));
  }
  \<close>
  Both read \<open>d[date]\<close> without a default: when the store has no entry for the date
  the method call on \<open>undefined\<close> throws.
\<close>

definition toggleDone :: "string \<Rightarrow> string \<Rightarrow> state \<Rightarrow> js_error + state" where
  "toggleDone date i s =
     (case data s date of
        None \<Rightarrow> Inl TypeError
      | Some l \<Rightarrow>
          Inr (s\<lparr>data := (data s)(date \<mapsto>
                 map (\<lambda>t. if t_id t = i then t\<lparr>t_done := \<not> t_done t\<rparr> else t) l)\<rparr>))"

definition removeTask :: "string \<Rightarrow> string \<Rightarrow> state \<Rightarrow> js_error + state" where
  "removeTask date i s =
     (case data s date of
        None \<Rightarrow> Inl TypeError
      | Some l \<Rightarrow> Inr (s\<lparr>data := (data s)(date \<mapsto> filter (\<lambda>t. t_id t \<noteq> i) l)\<rparr>))"

text \<open>\<open>resetDay(date)\<close>; the answer of \<open>window.confirm\<close> is the parameter.\<close>

definition resetDay :: "bool \<Rightarrow> string \<Rightarrow> state \<Rightarrow> state" where
  "resetDay confirmed date s =
     (if \<not> confirmed then s else s\<lparr>data := (data s)(date \<mapsto> [])\<rparr>)"

text \<open>
  \<^verbatim>\<open>
  function startEdit(task: Task) {
    setEditTask(task);
    setName(task.name);
    setDurHours(Math.floor(task.durationMinutes / 60));
    setDurMinutes(task.durationMinutes % 60);
    setStartTime(task.startTime);
    setView("today");
  }
  \<close>
\<close>

definition startEdit :: "task \<Rightarrow> state \<Rightarrow> state" where
  "startEdit t s =
     s\<lparr>editTask := Some t, name := t_name t,
       durHours := t_durationMinutes t div 60, durMinutes := js_rem (t_durationMinutes t) 60,
       startTime := t_startTime t, view := Today\<rparr>"

definition cancelEdit :: "state \<Rightarrow> state" where
  "cancelEdit s =
     s\<lparr>editTask := None, name := [], durHours := 0, durMinutes := 30,
       startTime := [], error := []\<rparr>"

definition setStartToPreviousEnd :: "state \<Rightarrow> state" where
  "setStartToPreviousEnd s =
     (case previousEndMinutes s of
        None \<Rightarrow> s\<lparr>startTime := ''00:00''\<rparr>
      | Some n \<Rightarrow> s\<lparr>startTime := minutesToTime (Some n)\<rparr>)"

subsection \<open>CSV import\<close>

text \<open>
  \<open>Number(x)\<close> on a field of a CSV row. A missing field (\<open>undefined\<close>) gives \<open>NaN\<close>; a
  string is trimmed, the empty string gives \<open>0\<close>, and an optionally signed run of decimal
  digits gives its value. These are the literals modelled. Any other string is mapped to
  \<open>NaN\<close> here; the source does the same for text that is no numeric literal, but reads a
  literal with a fraction, an exponent or a radix prefix as the number it denotes. Where
  this function returns an integer below \<open>2^53\<close> in magnitude, the source returns the same
  integer; it rounds a longer run of digits. The statements about imports below are
  restricted to such fields by \<open>csv_durations_in_range\<close>.
\<close>

definition Number_js :: "string option \<Rightarrow> number" where
  "Number_js x =
     (case x of
        None \<Rightarrow> NaN
      | Some s \<Rightarrow>
          (let t = trim s;
               neg = (case t of [] \<Rightarrow> False | c # _ \<Rightarrow> c = CHR ''-'');
               r = (case t of [] \<Rightarrow> []
                    | c # cs \<Rightarrow> if c = CHR ''-'' \<or> c = CHR ''+'' then cs else t)
           in if t = [] then Fin 0
              else if r \<noteq> [] \<and> list_all is_digit r
                   then Fin ((if neg then - 1 else 1) * digits_val 0 r)
              else NaN))"

text \<open>\<open>n || 0\<close> on a number: \<open>NaN\<close> and \<open>0\<close> are falsy.\<close>

fun num_or_zero :: "number \<Rightarrow> int" where
  "num_or_zero (Fin n) = n"
| "num_or_zero NaN = 0"

definition startsWith :: "string \<Rightarrow> string \<Rightarrow> bool" where
  "startsWith s p = (take (length p) s = p)"

text \<open>
  \<^verbatim>\<open>
      const lines = text.split(/\n/).filter(Boolean);
      const out: DataMap = { ...data };
      const startAt = lines[0] && lines[0].startsWith("date,") ? 1 : 0;
      for (let i = startAt; i < lines.length; i++) {
        const [date, name_, start, end, durationStr, doneStr] = lines[i].split(",");
        if (!date) continue;
        if (!out[date]) out[date] = [];
        out[date].push({
          id: String(Date.now()) + Math.random().toString(36).slice(2, 7) + i,
          name: name_ || "Imported",
          startTime: start || "00:00",
          endTime: end || "00:00",
          durationMinutes: Number(durationStr) || 0,
          done: doneStr === "1",
        });
      }
      setData(out);
  \<close>
  The time stamp and random part of the identifier of row \<open>i\<close> is \<open>mkid i\<close>.
\<close>

definition csv_lines :: "string \<Rightarrow> string list" where
  "csv_lines text = filter (\<lambda>l. l \<noteq> []) (str_split CHR 0x0A text)"

definition csv_startAt :: "string list \<Rightarrow> nat" where
  "csv_startAt lines =
     (case lines of [] \<Rightarrow> 0 | l # _ \<Rightarrow> if startsWith l ''date,'' then 1 else 0)"

definition imported_task :: "string \<Rightarrow> string list \<Rightarrow> task" where
  "imported_task ident f =
     \<lparr>t_id = ident,
      t_name = or_str (nth_opt f 1) ''Imported'',
      t_durationMinutes = num_or_zero (Number_js (nth_opt f 4)),
      t_startTime = or_str (nth_opt f 2) ''00:00'',
      t_endTime = or_str (nth_opt f 3) ''00:00'',
      t_done = (nth_opt f 5 = Some ''1'')\<rparr>"

text \<open>The first field of a row, empty when it is falsy (the row is then skipped).\<close>

definition row_date :: "string list \<Rightarrow> string" where
  "row_date f = or_str (nth_opt f 0) []"

fun import_rows :: "(nat \<Rightarrow> string) \<Rightarrow> nat \<Rightarrow> string list \<Rightarrow> DataMap \<Rightarrow> DataMap" where
  "import_rows mkid i [] out = out"
| "import_rows mkid i (l # ls) out =
     (let f = str_split CHR '','' l;
          date = row_date f
      in if date = [] then import_rows mkid (Suc i) ls out
         else import_rows mkid (Suc i) ls
                (out(date \<mapsto> (case out date of None \<Rightarrow> [] | Some ts \<Rightarrow> ts) @
                                [imported_task (mkid i @ toString (int i)) f])))"

definition importCSV :: "(nat \<Rightarrow> string) \<Rightarrow> string \<Rightarrow> state \<Rightarrow> state" where
  "importCSV mkid text s =
     (let lines = csv_lines text;
          startAt = csv_startAt lines
      in s\<lparr>data := import_rows mkid startAt (drop startAt lines) (data s)\<rparr>)"

section \<open>Events and runs\<close>

text \<open>One constructor for each way the user interface changes the state: the input
  fields, the form submission, the two buttons of the bedtime dialog, and the buttons
  of the task list and the header.\<close>

datatype event =
    SetName string
  | SetDurHours int
  | SetDurMinutes int
  | SetStartTime string
  | SetCurrentDate string
  | SetView view
  | Submit string
  | ModalConfirm string
  | ModalCancel
  | ToggleDone string string
  | RemoveTask string string
  | StartEdit task
  | CancelEdit
  | UsePreviousEnd
  | ImportCSV "nat \<Rightarrow> string" string
  | ResetDay bool string

fun step :: "event \<Rightarrow> state \<Rightarrow> js_error + state" where
  "step (SetName v) s = Inr (s\<lparr>name := v\<rparr>)"
| "step (SetDurHours v) s = Inr (s\<lparr>durHours := v\<rparr>)"
| "step (SetDurMinutes v) s = Inr (s\<lparr>durMinutes := v\<rparr>)"
| "step (SetStartTime v) s = Inr (s\<lparr>startTime := v\<rparr>)"
| "step (SetCurrentDate v) s = Inr (s\<lparr>currentDate := v\<rparr>)"
| "step (SetView v) s = Inr (s\<lparr>view := v\<rparr>)"
| "step (Submit newId) s = Inr (addOrUpdateTask newId s)"
| "step (ModalConfirm newId) s = Inr (handleModalConfirm newId s)"
| "step ModalCancel s = Inr (handleModalCancel s)"
| "step (ToggleDone date i) s = toggleDone date i s"
| "step (RemoveTask date i) s = removeTask date i s"
| "step (StartEdit t) s = Inr (startEdit t s)"
| "step CancelEdit s = Inr (cancelEdit s)"
| "step UsePreviousEnd s = Inr (setStartToPreviousEnd s)"
| "step (ImportCSV mkid text) s = Inr (importCSV mkid text s)"
| "step (ResetDay confirmed date) s = Inr (resetDay confirmed date s)"


text \<open>The state after mounting the component on a store read from local storage.\<close>

definition init :: "DataMap \<Rightarrow> string \<Rightarrow> state" where
  "init d today =
     \<lparr>data = d, currentDate = today, name = [], durHours = 0, durMinutes = 30,
      startTime = [], error = [], view = Today, editTask = None,
      bedtimeModalOpen = False, pendingForm = None\<rparr>"

section \<open>Properties of states and events\<close>






section \<open>Example states\<close>

text \<open>The state of the component opened on the day \<open>2025-01-01\<close> with a given store,
  after the user has typed a name, a start time and a duration into the form.\<close>

definition form_state :: "DataMap \<Rightarrow> string \<Rightarrow> string \<Rightarrow> int \<Rightarrow> int \<Rightarrow> state" where
  "form_state d nm st h m =
     (init d ''2025-01-01'')\<lparr>name := nm, startTime := st, durHours := h, durMinutes := m\<rparr>"

text \<open>A store with two days: a finished reading task followed by a walk on the first day
  (the scenario of the specification), and one task on the second.\<close>

definition read_task :: task where
  "read_task = \<lparr>t_id = ''t1'', t_name = ''Read'', t_durationMinutes = 30,
                 t_startTime = ''09:00'', t_endTime = ''09:30'', t_done = True\<rparr>"

definition walk_task :: task where
  "walk_task = \<lparr>t_id = ''t2'', t_name = ''Walk'', t_durationMinutes = 15,
                 t_startTime = ''09:30'', t_endTime = ''09:45'', t_done = False\<rparr>"

definition example_store :: DataMap where
  "example_store = [''2025-01-01'' \<mapsto> [read_task, walk_task], ''2025-01-02'' \<mapsto> [read_task]]"




section \<open>Digits and clock strings\<close>

lemma digit_char_in_digits: "digit_char n \<in> set digit_chars"
  unfolding digit_char_def by (rule nth_mem) (simp add: digit_chars_def)

lemma mod10_cases:
  fixes n :: nat
  obtains "n mod 10 = 0" | "n mod 10 = 1" | "n mod 10 = 2" | "n mod 10 = 3" | "n mod 10 = 4"
    | "n mod 10 = 5" | "n mod 10 = 6" | "n mod 10 = 7" | "n mod 10 = 8" | "n mod 10 = 9"
proof -
  have "n mod 10 = 0 \<or> n mod 10 = 1 \<or> n mod 10 = 2 \<or> n mod 10 = 3 \<or> n mod 10 = 4 \<or>
        n mod 10 = 5 \<or> n mod 10 = 6 \<or> n mod 10 = 7 \<or> n mod 10 = 8 \<or> n mod 10 = 9"
    by arith
  then show ?thesis
    by (elim disjE) (erule that)+
qed

lemma digit_val_digit_char: "digit_val (digit_char n) = int (n mod 10)"
  by (rule mod10_cases [of n]) (simp_all add: digit_char_def digit_chars_def digit_val_def)

lemma is_digit_digit_char: "is_digit (digit_char n)"
  by (simp add: is_digit_def digit_char_in_digits)

lemma digit_char_plain:
  "digit_char n \<noteq> CHR '':''" "digit_char n \<noteq> CHR ''-''" "digit_char n \<noteq> CHR ''+''"
  "\<not> is_space (digit_char n)"
  using digit_char_in_digits [of n] by (auto simp: digit_chars_def is_space_def)

lemma pad_two_digits:
  assumes "0 \<le> k" "k < 100"
  shows "padStart 2 CHR ''0'' (toString k) = two_digits (nat k)"
proof (cases "k < 10")
  case True
  with assms have "digits (nat k) = [digit_char (nat k)]" "nat k div 10 = 0"
    by (simp_all add: digits.simps)
  with assms show ?thesis
    by (simp add: padStart_def toString_def two_digits_def digit_char_def digit_chars_def)
next
  case False
  with assms have "nat k div 10 < 10" "\<not> nat k < 10" by auto
  then have "digits (nat k) = [digit_char (nat k div 10), digit_char (nat k)]"
    by (simp add: digits.simps [of "nat k"] digits.simps [of "nat k div 10"])
  with assms show ?thesis
    by (simp add: padStart_def toString_def two_digits_def)
qed

lemma digits_val_two_digits: "n < 100 \<Longrightarrow> digits_val 0 (two_digits n) = int n"
  by (simp add: two_digits_def digit_val_digit_char) presburger

lemma parseInt_two_digits: "n < 100 \<Longrightarrow> parseInt (two_digits n) = Fin (int n)"
  using digits_val_two_digits [of n]
  by (simp add: parseInt_def two_digits_def digit_char_plain is_digit_digit_char)

lemma split_clock:
  "str_split CHR '':'' (two_digits a @ '':'' @ two_digits b) = [two_digits a, two_digits b]"
  by (simp add: str_split_def two_digits_def digit_char_plain)

lemma timeToMinutes_clock:
  assumes "a < 100" "b < 100"
  shows "timeToMinutes (two_digits a @ '':'' @ two_digits b) = Some (Fin (int a * 60 + int b))"
proof -
  have ne: "two_digits a \<noteq> []" "two_digits b \<noteq> []" by (simp_all add: two_digits_def)
  have "two_digits a @ '':'' @ two_digits b \<noteq> []" using ne by simp
  then show ?thesis
    using assms ne
    by (simp add: timeToMinutes_def split_clock parseInt_two_digits Let_def del: append.simps)
qed

lemma two_digits_24:
  assumes "n < 100" "two_digits n = ''24''"
  shows "n = 24"
proof -
  have "digits_val 0 (two_digits n) = int n" using assms(1) by (rule digits_val_two_digits)
  moreover have "digits_val 0 ''24'' = 24" by (simp add: digit_val_def)
  ultimately show ?thesis using assms(2) by simp
qed

lemma minutesToTime_in_day:
  assumes "0 \<le> m" "m < 1440"
  shows "minutesToTime (Some (Fin m)) =
           two_digits (nat (m div 60)) @ '':'' @ two_digits (nat (m mod 60))"
proof -
  have h: "0 \<le> m div 60" "m div 60 < 100" "m div 60 < 24" using assms by arith+
  have mm: "0 \<le> m mod 60" "m mod 60 < 100" by arith+
  have "nat (m div 60) < 100" "nat (m div 60) \<noteq> 24" using h by arith+
  then have "two_digits (nat (m div 60)) \<noteq> ''24''"
    using two_digits_24 [of "nat (m div 60)"] by blast
  then show ?thesis
    using assms
    by (simp add: minutesToTime_def Let_def pad_two_digits [OF h(1,2)] pad_two_digits [OF mm])
qed

lemma minutesToTime_midnight: "minutesToTime (Some (Fin 1440)) = ''23:59''"
  by (simp add: minutesToTime_def padStart_def toString_def digits.simps digit_char_def
      digit_chars_def)

lemma roundtrip_in_day:
  assumes "0 \<le> m" "m < 1440"
  shows "timeToMinutes (minutesToTime (Some (Fin m))) = Some (Fin m)"
proof -
  have a: "nat (m div 60) < 100" using assms by arith
  have b: "nat (m mod 60) < 100" by arith
  have "0 \<le> m div 60" using assms by arith
  then have "int (nat (m div 60)) * 60 + int (nat (m mod 60)) = m" by simp
  then show ?thesis
    by (simp add: minutesToTime_in_day [OF assms] timeToMinutes_clock [OF a b]
        del: append.simps)
qed

section \<open>Round trip of minute offsets\<close>

text \<open>
  Claim C5. For every integer \<open>m\<close> with \<open>0 \<le> m \<le> 1439\<close>, converting the minute offset
  to its \<open>HH:MM\<close> string and parsing the string again gives \<open>m\<close> back.
\<close>

theorem minutesToTime_roundtrip:
  assumes "0 \<le> m" "m \<le> 1439"
  shows "timeToMinutes (minutesToTime (Some (Fin m))) = Some (Fin m)"
proof -
  from assms(2) have "m < 1440" by simp
  with assms(1) show ?thesis by (rule roundtrip_in_day)
qed

theorem minutesToTime_roundtrip_witness:
  "(0::int) \<le> 605 \<and> (605::int) \<le> 1439 \<and>
   minutesToTime (Some (Fin 605)) = ''10:05'' \<and>
   timeToMinutes (minutesToTime (Some (Fin 605))) = Some (Fin 605)"
proof -
  have "minutesToTime (Some (Fin 605)) = ''10:05''"
    by (simp add: minutesToTime_def padStart_def toString_def digits.simps digit_char_def
        digit_chars_def)
  then show ?thesis
    using minutesToTime_roundtrip [of 605] by simp
qed

section \<open>Splitting, parsing and the end time\<close>

lemma split_acc_plain: "sep \<notin> set h \<Longrightarrow> split_acc sep cur h = [rev cur @ h]"
  by (induction h arbitrary: cur) auto

lemma split_acc_sep:
  "sep \<notin> set h \<Longrightarrow> split_acc sep cur (h @ sep # r) = (rev cur @ h) # split_acc sep [] r"
  by (induction h arbitrary: cur) auto

lemma split_acc_nonempty: "split_acc sep cur s \<noteq> []"
  by (induction s arbitrary: cur) auto

lemma timeToMinutes_null_iff: "timeToMinutes s = None \<longleftrightarrow> s = []"
  by (simp add: timeToMinutes_def Let_def)

lemma timeToMinutes_missing_hour:
  "timeToMinutes (CHR '':'' # r) = timeToMinutes (''0:'' @ r)"
  by (simp add: timeToMinutes_def str_split_def Let_def)

lemma timeToMinutes_missing_minute:
  assumes "h \<noteq> []" "CHR '':'' \<notin> set h"
  shows "timeToMinutes h = timeToMinutes (h @ '':0'')"
proof -
  have "str_split CHR '':'' h = [h]"
    using assms(2) by (simp add: str_split_def split_acc_plain)
  moreover have "str_split CHR '':'' (h @ '':0'') = [h, ''0'']"
    using assms(2) split_acc_sep [of "CHR '':''" h "[]" "''0''"] by (simp add: str_split_def)
  ultimately show ?thesis
    using assms(1) by (simp add: timeToMinutes_def Let_def)
qed

lemma timeToMinutes_colon_30: "timeToMinutes '':30'' = Some (Fin 30)"
  by (simp add: timeToMinutes_def str_split_def parseInt_def is_space_def is_digit_def
      digit_chars_def digit_val_def)

lemma timeToMinutes_12: "timeToMinutes ''12'' = Some (Fin 720)"
  by (simp add: timeToMinutes_def str_split_def parseInt_def is_space_def is_digit_def
      digit_chars_def digit_val_def)

lemma timeToMinutes_abc: "timeToMinutes ''abc'' = Some NaN"
  by (simp add: timeToMinutes_def str_split_def parseInt_def is_space_def is_digit_def
      digit_chars_def digit_val_def)

lemma timeToMinutes_NaN_if:
  assumes "s \<noteq> []"
    and "parseInt (or_str (nth_opt (str_split CHR '':'' s) 0) ''0'') = NaN \<or>
         parseInt (or_str (nth_opt (str_split CHR '':'' s) 1) ''0'') = NaN"
  shows "timeToMinutes s = Some NaN"
proof -
  have "a = NaN \<or> b = NaN \<Longrightarrow> num_add (num_mul a (Fin 60)) b = NaN" for a b
    by (cases a; cases b) auto
  then show ?thesis using assms by (simp add: timeToMinutes_def Let_def)
qed

lemma minutesToTime_nonempty: "minutesToTime n \<noteq> []"
  by (simp add: minutesToTime_def Let_def split: option.splits number.splits)

lemma calc_in_day:
  assumes "timeToMinutes st = Some (Fin sm)" "sm + d \<le> 1440"
  shows "calcEndTimeFromStart st d = Some (minutesToTime (Some (Fin (sm + d))))"
  using assms by (simp add: calcEndTimeFromStart_def Let_def)

lemma calc_overflow:
  assumes "timeToMinutes st = Some (Fin sm)" "sm + d > 1440"
  shows "calcEndTimeFromStart st d = None"
  using assms by (simp add: calcEndTimeFromStart_def Let_def)

lemma end_minutes:
  assumes "0 \<le> e" "e \<le> 1440"
  shows "timeToMinutes (minutesToTime (Some (Fin e))) = Some (Fin (if e = 1440 then 1439 else e))"
proof (cases "e = 1440")
  case True
  have "timeToMinutes ''23:59'' = Some (Fin 1439)"
    by (simp add: timeToMinutes_def str_split_def parseInt_def is_space_def is_digit_def
      digit_chars_def digit_val_def)
  with True show ?thesis by (simp add: minutesToTime_midnight)
next
  case False
  with assms have "e < 1440" by simp
  with assms(1) False show ?thesis by (simp add: roundtrip_in_day)
qed

lemma submit_valid:
  assumes "trim (name s) \<noteq> []" "d = durHours s * 60 + durMinutes s" "0 < d"
    "timeToMinutes (startTime s) = Some (Fin sm)" "0 \<le> sm" "sm + d \<le> 1440"
  shows "addOrUpdateTask nid s =
          (if 22 * 60 \<le> sm + d
           then s\<lparr>error := [], pendingForm := Some (proposal s (minutesToTime (Some (Fin (sm + d))))),
                  bedtimeModalOpen := True\<rparr>
           else commitTask nid (s\<lparr>error := []\<rparr>) (proposal s (minutesToTime (Some (Fin (sm + d))))))"
proof -
  have st: "startTime s \<noteq> []" using assms(4) by (auto simp: timeToMinutes_def)
  have e: "0 \<le> sm + d" using assms by simp
  show ?thesis
    using assms(1,3,6) st
    by (simp add: addOrUpdateTask_def Let_def assms(2) [symmetric] calc_in_day [OF assms(4,6)]
        minutesToTime_nonempty end_minutes [OF e assms(6)])
qed

lemmas clock_eval = timeToMinutes_def str_split_def parseInt_def is_space_def is_digit_def
  digit_chars_def digit_val_def

lemmas print_eval = minutesToTime_def padStart_def toString_def digits.simps digit_char_def
  digit_chars_def

lemmas state_eval = form_state_def init_def trim_def is_space_def tasksForDate_def
  example_store_def

lemma nth_opt_Cons_numeral [simp]:
  "nth_opt (x # xs) (numeral k) = nth_opt xs (pred_numeral k)"
  by (simp add: numeral_eq_Suc)

lemma error_commitTask: "error (commitTask nid s f) = error s"
  by (simp add: commitTask_def Let_def split: option.splits)

lemma data_commitTask_new:
  "edit_target f = None \<Longrightarrow>
   data (commitTask nid s f) =
     (data s)(currentDate s \<mapsto> tasksForDate s (currentDate s) @
        [\<lparr>t_id = nid, t_name = trim (p_name f), t_durationMinutes = p_durationMinutes f,
          t_startTime = p_startTime f, t_endTime = p_endTime f, t_done = False\<rparr>])"
  by (simp add: commitTask_def Let_def)

lemma data_commitTask_edit:
  "edit_target f = Some eid \<Longrightarrow>
   data (commitTask nid s f) =
     (data s)(currentDate s \<mapsto>
        map (\<lambda>t. if t_id t = eid
                 then t\<lparr>t_name := trim (p_name f), t_durationMinutes := p_durationMinutes f,
                        t_startTime := p_startTime f, t_endTime := p_endTime f\<rparr>
                 else t) (tasksForDate s (currentDate s)))"
  by (simp add: commitTask_def Let_def)

lemma edit_target_proposal_new: "editTask s = None \<Longrightarrow> edit_target (proposal s e) = None"
  by (simp add: edit_target_def proposal_def)

section \<open>Lenient parsing of clock strings\<close>

text \<open>
  An input that is not a clock time is not mapped to \<open>null\<close>: only the empty string is.
  \<open>parseInt\<close> finds no integer in \<open>abc\<close>, and the sum is \<open>NaN\<close>.
\<close>

theorem timeToMinutes_invalid_counterexample:
  "''abc'' \<noteq> [] \<and> timeToMinutes ''abc'' = Some NaN \<and> timeToMinutes ''abc'' \<noteq> None"
  by (simp add: clock_eval)

text \<open>
  Claim C6, as the code has it. \<open>timeToMinutes\<close> returns \<open>null\<close> exactly for the empty
  string; a string that is not empty always gives a number, and that number is \<open>NaN\<close>
  whenever \<open>parseInt\<close> finds no integer in the hour or in the minute segment. A missing
  hour or minute segment counts as \<open>0\<close>: an input that begins with the colon parses like
  the same input with hour \<open>0\<close>, an input without a colon parses like the same input with
  minute \<open>0\<close>, \<open>:30\<close> gives \<open>30\<close> and \<open>12\<close> gives \<open>720\<close>.
\<close>

theorem timeToMinutes_lenient:
  "(timeToMinutes s = None \<longleftrightarrow> s = []) \<and>
   (s \<noteq> [] \<and>
      (parseInt (or_str (nth_opt (str_split CHR '':'' s) 0) ''0'') = NaN \<or>
       parseInt (or_str (nth_opt (str_split CHR '':'' s) 1) ''0'') = NaN) \<longrightarrow>
      timeToMinutes s = Some NaN) \<and>
   timeToMinutes (CHR '':'' # r) = timeToMinutes (''0:'' @ r) \<and>
   (h \<noteq> [] \<and> CHR '':'' \<notin> set h \<longrightarrow> timeToMinutes h = timeToMinutes (h @ '':0'')) \<and>
   timeToMinutes '':30'' = Some (Fin 30) \<and>
   timeToMinutes ''12'' = Some (Fin 720) \<and>
   timeToMinutes ''ab:cd'' = Some NaN"
proof -
  have "timeToMinutes ''ab:cd'' = Some NaN" by (simp add: clock_eval)
  then show ?thesis
    using timeToMinutes_null_iff [of s] timeToMinutes_NaN_if [of s]
      timeToMinutes_missing_hour [of r] timeToMinutes_missing_minute [of h]
      timeToMinutes_colon_30 timeToMinutes_12
    by blast
qed

theorem timeToMinutes_lenient_witness:
  "(''12'' \<noteq> [] \<and> CHR '':'' \<notin> set ''12'') \<and>
   timeToMinutes ''12'' = timeToMinutes ''12:0'' \<and>
   timeToMinutes ''12:0'' = Some (Fin 720) \<and>
   timeToMinutes '':45'' = timeToMinutes ''0:45'' \<and>
   timeToMinutes ''0:45'' = Some (Fin 45) \<and>
   ''7:x'' \<noteq> [] \<and>
   parseInt (or_str (nth_opt (str_split CHR '':'' ''7:x'') 1) ''0'') = NaN \<and>
   timeToMinutes ''7:x'' = Some NaN"
proof -
  have a: "timeToMinutes ''12:0'' = Some (Fin 720)" by (simp add: clock_eval)
  have b: "timeToMinutes ''0:45'' = Some (Fin 45)" by (simp add: clock_eval)
  have c: "parseInt (or_str (nth_opt (str_split CHR '':'' ''7:x'') 1) ''0'') = NaN"
    by (simp add: clock_eval)
  show ?thesis
    using timeToMinutes_lenient [of "''7:x''" "''45''" "''12''"] a b c by simp
qed

section \<open>The computed end time\<close>

text \<open>
  A proposal that ends exactly at midnight is accepted, but its end time is the clamped
  \<open>23:59\<close>, one minute short of start plus duration.
\<close>

theorem end_time_midnight_counterexample:
  "timeToMinutes ''23:00'' = Some (Fin 1380) \<and> (0::int) < 60 \<and> (1380::int) + 60 \<le> 1440 \<and>
   calcEndTimeFromStart ''23:00'' 60 = Some ''23:59'' \<and>
   timeToMinutes ''23:59'' = Some (Fin 1439) \<and>
   timeToMinutes ''23:59'' \<noteq> Some (Fin (1380 + 60)) \<and>
   error (addOrUpdateTask ''id1'' (form_state Map.empty ''Late'' ''23:00'' 1 0)) = [] \<and>
   map_option p_endTime (pendingForm (addOrUpdateTask ''id1'' (form_state Map.empty ''Late'' ''23:00'' 1 0)))
     = Some ''23:59''"
proof -
  have a: "timeToMinutes ''23:00'' = Some (Fin 1380)" by (simp add: clock_eval)
  have b: "timeToMinutes ''23:59'' = Some (Fin 1439)" by (simp add: clock_eval)
  have c: "calcEndTimeFromStart ''23:00'' 60 = Some ''23:59''"
    using calc_in_day [OF a, of 60] by (simp add: minutesToTime_midnight)
  have d: "addOrUpdateTask ''id1'' (form_state Map.empty ''Late'' ''23:00'' 1 0) =
      (form_state Map.empty ''Late'' ''23:00'' 1 0)\<lparr>error := [],
         pendingForm := Some (proposal (form_state Map.empty ''Late'' ''23:00'' 1 0) ''23:59''),
         bedtimeModalOpen := True\<rparr>"
    using submit_valid [of "form_state Map.empty ''Late'' ''23:00'' 1 0" 60 1380 "''id1''"] a
    by (simp add: form_state_def init_def trim_def is_space_def minutesToTime_midnight)
  show ?thesis
    using a b c by (simp add: d proposal_def)
qed

text \<open>
  Claim C1, as the code has it. For every submission with a name that is not blank, a
  duration \<open>d > 0\<close>, a start time that parses to \<open>sm \<ge> 0\<close> minutes and
  \<open>sm + d \<le> 1440\<close>, the validation succeeds (no error message) with the end time
  \<open>minutesToTime (sm + d)\<close>. When \<open>sm + d < 1440\<close> that end time parses back to
  \<open>sm + d\<close>; when \<open>sm + d = 1440\<close> it is \<open>23:59\<close>. Below 22:00 the proposal is
  committed at once, otherwise it becomes the pending form of the bedtime dialog.
\<close>

theorem validation_end_time:
  assumes "trim (name s) \<noteq> []" and "d = durHours s * 60 + durMinutes s" and "0 < d"
    and "timeToMinutes (startTime s) = Some (Fin sm)" and "0 \<le> sm" and "sm + d \<le> 1440"
  shows "calcEndTimeFromStart (startTime s) d = Some (minutesToTime (Some (Fin (sm + d)))) \<and>
         error (addOrUpdateTask nid s) = [] \<and>
         (sm + d < 1440 \<longrightarrow>
            timeToMinutes (minutesToTime (Some (Fin (sm + d)))) = Some (Fin (sm + d))) \<and>
         (sm + d = 1440 \<longrightarrow> minutesToTime (Some (Fin (sm + d))) = ''23:59'') \<and>
         (sm + d < 22 * 60 \<longrightarrow>
            addOrUpdateTask nid s =
              commitTask nid (s\<lparr>error := []\<rparr>) (proposal s (minutesToTime (Some (Fin (sm + d)))))) \<and>
         (22 * 60 \<le> sm + d \<longrightarrow>
            pendingForm (addOrUpdateTask nid s) =
              Some (proposal s (minutesToTime (Some (Fin (sm + d))))))"
proof -
  note sv = submit_valid [OF assms, of nid]
  have e: "0 \<le> sm + d" using assms by simp
  have 1: "calcEndTimeFromStart (startTime s) d = Some (minutesToTime (Some (Fin (sm + d))))"
    using assms(4,6) by (rule calc_in_day)
  have 2: "error (addOrUpdateTask nid s) = []"
    by (simp add: sv error_commitTask)
  have 3: "sm + d < 1440 \<longrightarrow>
            timeToMinutes (minutesToTime (Some (Fin (sm + d)))) = Some (Fin (sm + d))"
    using e by (simp add: roundtrip_in_day)
  have 4: "sm + d = 1440 \<longrightarrow> minutesToTime (Some (Fin (sm + d))) = ''23:59''"
    by (simp add: minutesToTime_midnight)
  have 5: "sm + d < 22 * 60 \<longrightarrow>
            addOrUpdateTask nid s =
              commitTask nid (s\<lparr>error := []\<rparr>) (proposal s (minutesToTime (Some (Fin (sm + d)))))"
    by (simp add: sv)
  have 6: "22 * 60 \<le> sm + d \<longrightarrow>
            pendingForm (addOrUpdateTask nid s) =
              Some (proposal s (minutesToTime (Some (Fin (sm + d)))))"
    by (simp add: sv)
  from 1 2 3 4 5 6 show ?thesis by blast
qed

theorem validation_end_time_witness:
  "trim (name (form_state Map.empty ''Read'' ''09:00'' 0 30)) \<noteq> [] \<and>
   timeToMinutes (startTime (form_state Map.empty ''Read'' ''09:00'' 0 30)) = Some (Fin 540) \<and>
   (0::int) < 30 \<and> (0::int) \<le> 540 \<and> (540::int) + 30 \<le> 1440 \<and>
   calcEndTimeFromStart ''09:00'' 30 = Some ''09:30'' \<and>
   timeToMinutes ''09:30'' = Some (Fin 570) \<and>
   tasksForDate (addOrUpdateTask ''id1'' (form_state Map.empty ''Read'' ''09:00'' 0 30)) ''2025-01-01''
     = [\<lparr>t_id = ''id1'', t_name = ''Read'', t_durationMinutes = 30, t_startTime = ''09:00'',
         t_endTime = ''09:30'', t_done = False\<rparr>] \<and>
   timeToMinutes (startTime (form_state Map.empty ''Late'' ''23:00'' 1 0)) = Some (Fin 1380) \<and>
   (1380::int) + 60 = 1440 \<and>
   calcEndTimeFromStart ''23:00'' 60 = Some ''23:59'' \<and>
   error (addOrUpdateTask ''id1'' (form_state Map.empty ''Late'' ''23:00'' 1 0)) = [] \<and>
   pendingForm (addOrUpdateTask ''id1'' (form_state Map.empty ''Late'' ''23:00'' 1 0)) =
     Some (proposal (form_state Map.empty ''Late'' ''23:00'' 1 0) ''23:59'')"
proof -
  let ?s = "form_state Map.empty ''Read'' ''09:00'' 0 30"
  let ?u = "form_state Map.empty ''Late'' ''23:00'' 1 0"
  have n: "trim (name ?s) \<noteq> []" by (simp add: form_state_def init_def trim_def is_space_def)
  have d: "(30::int) = durHours ?s * 60 + durMinutes ?s" by (simp add: form_state_def init_def)
  have t: "timeToMinutes (startTime ?s) = Some (Fin 540)"
    by (simp add: form_state_def init_def clock_eval)
  have m: "minutesToTime (Some (Fin 570)) = ''09:30''" by (simp add: print_eval)
  have first: "calcEndTimeFromStart ''09:00'' 30 = Some ''09:30'' \<and>
     timeToMinutes ''09:30'' = Some (Fin 570) \<and>
     tasksForDate (addOrUpdateTask ''id1'' ?s) ''2025-01-01''
     = [\<lparr>t_id = ''id1'', t_name = ''Read'', t_durationMinutes = 30, t_startTime = ''09:00'',
         t_endTime = ''09:30'', t_done = False\<rparr>]"
    using validation_end_time [OF n d _ t, of "''id1''"] n t m
    by (simp add: form_state_def init_def trim_def is_space_def tasksForDate_def proposal_def
        data_commitTask_new edit_target_def)
  have n2: "trim (name ?u) \<noteq> []" by (simp add: form_state_def init_def trim_def is_space_def)
  have d2: "(60::int) = durHours ?u * 60 + durMinutes ?u" by (simp add: form_state_def init_def)
  have t2: "timeToMinutes (startTime ?u) = Some (Fin 1380)"
    by (simp add: form_state_def init_def clock_eval)
  have st2: "startTime ?u = ''23:00''" by (simp add: form_state_def init_def)
  have second: "calcEndTimeFromStart ''23:00'' 60 = Some ''23:59'' \<and>
     error (addOrUpdateTask ''id1'' ?u) = [] \<and>
     pendingForm (addOrUpdateTask ''id1'' ?u) = Some (proposal ?u ''23:59'')"
    using validation_end_time [OF n2 d2 _ t2, of "''id1''"]
    by (simp add: st2 minutesToTime_midnight)
  from n t first t2 second show ?thesis by simp
qed

section \<open>Overflow past midnight\<close>

text \<open>
  Claim C3. For every submission whose start time parses to \<open>sm\<close> minutes and whose
  duration \<open>d\<close> gives \<open>sm + d > 1440\<close>, no end time is computed, the submission is
  rejected with an error message, the store is unchanged and no proposal becomes
  pending. For a proposal that passed the field checks of the form (a name that is not
  blank, a positive duration) the message is \<open>OverflowPastMidnight\<close> and nothing but the
  message changes.
\<close>

theorem overflow_rejected:
  assumes "d = durHours s * 60 + durMinutes s"
    and "timeToMinutes (startTime s) = Some (Fin sm)" and "sm + d > 1440"
  shows "calcEndTimeFromStart (startTime s) d = None \<and>
         data (addOrUpdateTask nid s) = data s \<and>
         pendingForm (addOrUpdateTask nid s) = pendingForm s \<and>
         error (addOrUpdateTask nid s) \<noteq> [] \<and>
         (trim (name s) \<noteq> [] \<and> 0 < d \<longrightarrow>
            addOrUpdateTask nid s = s\<lparr>error := OverflowPastMidnight\<rparr>)"
proof -
  have c: "calcEndTimeFromStart (startTime s) d = None"
    using assms(2,3) by (rule calc_overflow)
  have st: "startTime s \<noteq> []" using assms(2) by (auto simp: timeToMinutes_def)
  have 1: "data (addOrUpdateTask nid s) = data s"
    using c by (simp add: addOrUpdateTask_def Let_def assms(1) [symmetric])
  have 2: "pendingForm (addOrUpdateTask nid s) = pendingForm s"
    using c by (simp add: addOrUpdateTask_def Let_def assms(1) [symmetric])
  have 3: "error (addOrUpdateTask nid s) \<noteq> []"
    using c
    by (simp add: addOrUpdateTask_def Let_def assms(1) [symmetric] EmptyName_def
        MissingStartTime_def NonPositiveDuration_def OverflowPastMidnight_def)
  have 4: "trim (name s) \<noteq> [] \<and> 0 < d \<longrightarrow>
            addOrUpdateTask nid s = s\<lparr>error := OverflowPastMidnight\<rparr>"
    using c st by (simp add: addOrUpdateTask_def Let_def assms(1) [symmetric])
  from c 1 2 3 4 show ?thesis by blast
qed

theorem overflow_rejected_witness:
  "timeToMinutes (startTime (form_state Map.empty ''Late'' ''23:50'' 0 20)) = Some (Fin 1430) \<and>
   (1430::int) + 20 > 1440 \<and>
   trim (name (form_state Map.empty ''Late'' ''23:50'' 0 20)) \<noteq> [] \<and> (0::int) < 20 \<and>
   addOrUpdateTask ''id1'' (form_state Map.empty ''Late'' ''23:50'' 0 20) =
     (form_state Map.empty ''Late'' ''23:50'' 0 20)\<lparr>error := OverflowPastMidnight\<rparr> \<and>
   data (addOrUpdateTask ''id1'' (form_state Map.empty ''Late'' ''23:50'' 0 20)) = Map.empty"
proof -
  let ?s = "form_state Map.empty ''Late'' ''23:50'' 0 20"
  have n: "trim (name ?s) \<noteq> []" by (simp add: form_state_def init_def trim_def is_space_def)
  have d: "(20::int) = durHours ?s * 60 + durMinutes ?s" by (simp add: form_state_def init_def)
  have t: "timeToMinutes (startTime ?s) = Some (Fin 1430)"
    by (simp add: form_state_def init_def clock_eval)
  have e: "data ?s = Map.empty" by (simp add: form_state_def init_def)
  show ?thesis
    using overflow_rejected [OF d t, of "''id1''"] n t e by simp
qed

section \<open>The bedtime gate\<close>



section \<open>Start before the end of the previous task\<close>

text \<open>
  The JavaScript component rejects a new task that starts before the end of the last
  task of the day, accepts one that starts at or after that end, and does not apply the
  check to an edit.
\<close>

lemma js_out_of_order_rejected:
  assumes "trim (name s) \<noteq> []" and "0 < durHours s * 60 + durMinutes s"
    and "editTask s = None" and "tasksForDate s (currentDate s) \<noteq> []"
    and "timeToMinutes (startTime s) = Some (Fin sm)"
    and "timeToMinutes (t_endTime (last (tasksForDate s (currentDate s)))) = Some (Fin pe)"
    and "sm < pe"
  shows "addOrUpdateTask_js nid s = s\<lparr>error := OutOfOrderStart\<rparr>"
proof -
  have st: "startTime s \<noteq> []" using assms(5) by (auto simp: timeToMinutes_def)
  show ?thesis
    using assms st by (simp add: addOrUpdateTask_js_def Let_def js_lt_def)
qed

lemma js_start_at_previous_end_accepted:
  assumes "trim (name s) \<noteq> []" and "d = durHours s * 60 + durMinutes s" and "0 < d"
    and "editTask s = None" and "tasksForDate s (currentDate s) \<noteq> []"
    and "timeToMinutes (startTime s) = Some (Fin sm)"
    and "timeToMinutes (t_endTime (last (tasksForDate s (currentDate s)))) = Some (Fin pe)"
    and "pe \<le> sm" and "sm + d \<le> 1440"
  shows "error (addOrUpdateTask_js nid s) = [] \<and>
         data (addOrUpdateTask_js nid s) =
           (data s)(currentDate s \<mapsto> tasksForDate s (currentDate s) @
              [\<lparr>t_id = nid, t_name = trim (name s), t_durationMinutes = d,
                t_startTime = startTime s,
                t_endTime = minutesToTime (Some (Fin (sm + d))), t_done = False\<rparr>])"
proof -
  have st: "startTime s \<noteq> []" using assms(6) by (auto simp: timeToMinutes_def)
  show ?thesis
    using assms(1,3,4,5,7,8) st
    by (simp add: addOrUpdateTask_js_def Let_def js_lt_def assms(2) [symmetric] assms(6)
        calc_in_day [OF assms(6,9)] minutesToTime_nonempty)
qed

lemma js_edit_exempt:
  assumes "trim (name s) \<noteq> []" and "d = durHours s * 60 + durMinutes s" and "0 < d"
    and "editTask s = Some et"
    and "timeToMinutes (startTime s) = Some (Fin sm)" and "sm + d \<le> 1440"
  shows "error (addOrUpdateTask_js nid s) = [] \<and>
         data (addOrUpdateTask_js nid s) =
           (data s)(currentDate s \<mapsto>
              map (\<lambda>t. if t_id t = t_id et
                       then t\<lparr>t_name := trim (name s), t_durationMinutes := d,
                              t_startTime := startTime s,
                              t_endTime := minutesToTime (Some (Fin (sm + d)))\<rparr>
                       else t) (tasksForDate s (currentDate s)))"
proof -
  have st: "startTime s \<noteq> []" using assms(5) by (auto simp: timeToMinutes_def)
  show ?thesis
    using assms(1,3,4) st
    by (simp add: addOrUpdateTask_js_def Let_def assms(2) [symmetric]
        calc_in_day [OF assms(5,6)] minutesToTime_nonempty)
qed

text \<open>
  Claim C2. The day holds a task from 09:00 to 09:30 and one from 09:30 to 09:45, and a
  new task starting at 09:00 is submitted (the scenario of the specification). The
  TypeScript component raises no error and appends the task; the JavaScript component
  rejects the same submission with \<open>OutOfOrderStart\<close> and changes nothing else.
\<close>

theorem out_of_order_start_accepted:
  "tasksForDate (form_state example_store ''Nap'' ''09:00'' 0 10) ''2025-01-01''
     = [read_task, walk_task] \<and>
   timeToMinutes ''09:00'' = Some (Fin 540) \<and>
   timeToMinutes (t_endTime walk_task) = Some (Fin 585) \<and>
   error (addOrUpdateTask ''t3'' (form_state example_store ''Nap'' ''09:00'' 0 10)) = [] \<and>
   tasksForDate (addOrUpdateTask ''t3'' (form_state example_store ''Nap'' ''09:00'' 0 10))
       ''2025-01-01''
     = [read_task, walk_task,
        \<lparr>t_id = ''t3'', t_name = ''Nap'', t_durationMinutes = 10, t_startTime = ''09:00'',
          t_endTime = ''09:10'', t_done = False\<rparr>] \<and>
   addOrUpdateTask_js ''t3'' (form_state example_store ''Nap'' ''09:00'' 0 10)
     = (form_state example_store ''Nap'' ''09:00'' 0 10)\<lparr>error := OutOfOrderStart\<rparr>"
proof -
  let ?s = "form_state example_store ''Nap'' ''09:00'' 0 10"
  have l: "tasksForDate ?s ''2025-01-01'' = [read_task, walk_task]" by (simp add: state_eval)
  have a: "timeToMinutes ''09:00'' = Some (Fin 540)" by (simp add: clock_eval)
  have b: "timeToMinutes (t_endTime walk_task) = Some (Fin 585)"
    by (simp add: walk_task_def clock_eval)
  have n: "trim (name ?s) \<noteq> []" by (simp add: state_eval)
  have d: "(10::int) = durHours ?s * 60 + durMinutes ?s" by (simp add: state_eval)
  have t: "timeToMinutes (startTime ?s) = Some (Fin 540)" using a by (simp add: state_eval)
  have m: "minutesToTime (Some (Fin 550)) = ''09:10''" by (simp add: print_eval)
  have ts: "addOrUpdateTask ''t3'' ?s = commitTask ''t3'' (?s\<lparr>error := []\<rparr>) (proposal ?s ''09:10'')"
    using submit_valid [OF n d _ t, of "''t3''"] m by simp
  have e: "error (addOrUpdateTask ''t3'' ?s) = []" by (simp add: ts error_commitTask)
  have et: "edit_target (proposal ?s ''09:10'') = None"
    by (rule edit_target_proposal_new) (simp add: state_eval)
  have c: "tasksForDate (addOrUpdateTask ''t3'' ?s) ''2025-01-01''
     = [read_task, walk_task,
        \<lparr>t_id = ''t3'', t_name = ''Nap'', t_durationMinutes = 10, t_startTime = ''09:00'',
          t_endTime = ''09:10'', t_done = False\<rparr>]"
    unfolding ts by (simp add: tasksForDate_def data_commitTask_new [OF et]) (simp add: state_eval proposal_def)
  have js: "addOrUpdateTask_js ''t3'' ?s = ?s\<lparr>error := OutOfOrderStart\<rparr>"
  proof (rule js_out_of_order_rejected [OF n _ _ _ t])
    show "0 < durHours ?s * 60 + durMinutes ?s" by (simp add: state_eval)
    show "editTask ?s = None" by (simp add: state_eval)
    show "tasksForDate ?s (currentDate ?s) \<noteq> []" by (simp add: state_eval)
    show "timeToMinutes (t_endTime (last (tasksForDate ?s (currentDate ?s)))) = Some (Fin 585)"
      using b by (simp add: state_eval)
    show "(540::int) < 585" by simp
  qed
  from l a b e c js show ?thesis by blast
qed

section \<open>Removing a task\<close>

lemma removeTask_absent: "data s date = None \<Longrightarrow> removeTask date i s = Inl TypeError"
  by (simp add: removeTask_def)

lemma removeTask_present:
  assumes "data s date = Some l"
  shows "removeTask date i s = Inr (s\<lparr>data := (data s)(date \<mapsto> filter (\<lambda>t. t_id t \<noteq> i) l)\<rparr>)"
    and "\<forall>t \<in> set l. t_id t \<noteq> i \<Longrightarrow> removeTask date i s = Inr s"
proof -
  show 1: "removeTask date i s = Inr (s\<lparr>data := (data s)(date \<mapsto> filter (\<lambda>t. t_id t \<noteq> i) l)\<rparr>)"
    using assms by (simp add: removeTask_def)
  assume "\<forall>t \<in> set l. t_id t \<noteq> i"
  then have "filter (\<lambda>t. t_id t \<noteq> i) l = l" by (simp add: filter_id_conv)
  moreover have "(data s)(date \<mapsto> l) = data s" using assms by (simp add: map_upd_triv)
  ultimately show "removeTask date i s = Inr s" by (simp add: 1)
qed

text \<open>
  Called on a date that has no entry in the store, \<open>removeTask\<close> does not return: the
  read of \<open>d[date].filter\<close> throws.
\<close>

theorem removeTask_absent_date_throws:
  "data (init Map.empty ''2025-01-01'') ''2025-01-01'' = None \<and>
   removeTask ''2025-01-01'' ''t1'' (init Map.empty ''2025-01-01'') = Inl TypeError"
  by (simp add: removeTask_def init_def)

text \<open>
  Claim C8, as the code has it. When the store has an entry for the date, \<open>removeTask\<close>
  returns: the entry becomes the list without the tasks of that identifier, and the state
  is unchanged when no task has it. The component calls \<open>removeTask\<close> only from the
  Delete button of a task listed for the current date, and for such a task the entry
  exists and the call returns. Without an entry for the date the call throws.
\<close>

theorem removeTask_on_listed_date:
  "(data s date = Some l \<longrightarrow>
      removeTask date i s =
        Inr (s\<lparr>data := (data s)(date \<mapsto> filter (\<lambda>u. t_id u \<noteq> i) l)\<rparr>) \<and>
      ((\<forall>u \<in> set l. t_id u \<noteq> i) \<longrightarrow> removeTask date i s = Inr s)) \<and>
   (t \<in> set (tasksForDate s (currentDate s)) \<longrightarrow>
      (\<exists>l'. data s (currentDate s) = Some l' \<and> t \<in> set l' \<and>
            removeTask (currentDate s) (t_id t) s =
              Inr (s\<lparr>data := (data s)(currentDate s \<mapsto>
                                 filter (\<lambda>u. t_id u \<noteq> t_id t) l')\<rparr>))) \<and>
   (data s date = None \<longrightarrow> removeTask date i s = Inl TypeError)"
proof -
  have 1: "data s date = Some l \<longrightarrow>
      removeTask date i s =
        Inr (s\<lparr>data := (data s)(date \<mapsto> filter (\<lambda>u. t_id u \<noteq> i) l)\<rparr>) \<and>
      ((\<forall>u \<in> set l. t_id u \<noteq> i) \<longrightarrow> removeTask date i s = Inr s)"
    using removeTask_present [of s date l i] by blast
  have 2: "t \<in> set (tasksForDate s (currentDate s)) \<longrightarrow>
      (\<exists>l'. data s (currentDate s) = Some l' \<and> t \<in> set l' \<and>
            removeTask (currentDate s) (t_id t) s =
              Inr (s\<lparr>data := (data s)(currentDate s \<mapsto>
                                 filter (\<lambda>u. t_id u \<noteq> t_id t) l')\<rparr>))"
  proof
    assume a: "t \<in> set (tasksForDate s (currentDate s))"
    show "\<exists>l'. data s (currentDate s) = Some l' \<and> t \<in> set l' \<and>
            removeTask (currentDate s) (t_id t) s =
              Inr (s\<lparr>data := (data s)(currentDate s \<mapsto>
                                 filter (\<lambda>u. t_id u \<noteq> t_id t) l')\<rparr>)"
    proof (cases "data s (currentDate s)")
      case None
      with a show ?thesis by (simp add: tasksForDate_def)
    next
      case (Some l')
      with a have "t \<in> set l'" by (simp add: tasksForDate_def)
      with Some removeTask_present(1) [OF Some, of "t_id t"] show ?thesis by blast
    qed
  qed
  have 3: "data s date = None \<longrightarrow> removeTask date i s = Inl TypeError"
    by (simp add: removeTask_absent)
  from 1 2 3 show ?thesis by blast
qed

theorem removeTask_on_listed_date_witness:
  "data (init example_store ''2025-01-01'') ''2025-01-01'' = Some [read_task, walk_task] \<and>
   currentDate (init example_store ''2025-01-01'') = ''2025-01-01'' \<and>
   walk_task \<in> set (tasksForDate (init example_store ''2025-01-01'') ''2025-01-01'') \<and>
   removeTask ''2025-01-01'' ''t2'' (init example_store ''2025-01-01'') =
     Inr ((init example_store ''2025-01-01'')
            \<lparr>data := example_store(''2025-01-01'' \<mapsto> [read_task])\<rparr>) \<and>
   t_id read_task \<noteq> ''t7'' \<and> t_id walk_task \<noteq> ''t7'' \<and>
   removeTask ''2025-01-01'' ''t7'' (init example_store ''2025-01-01'') =
     Inr (init example_store ''2025-01-01'') \<and>
   data (init example_store ''2025-01-01'') ''2025-01-05'' = None \<and>
   removeTask ''2025-01-05'' ''t2'' (init example_store ''2025-01-01'') = Inl TypeError"
proof -
  let ?s = "init example_store ''2025-01-01''"
  have ds: "data ?s = example_store" by (simp add: init_def)
  have l: "data ?s ''2025-01-01'' = Some [read_task, walk_task]"
    unfolding ds by (simp add: example_store_def)
  have cd: "currentDate ?s = ''2025-01-01''" by (simp add: init_def)
  have w: "walk_task \<in> set (tasksForDate ?s ''2025-01-01'')"
    by (simp add: tasksForDate_def l)
  have f: "filter (\<lambda>u. t_id u \<noteq> ''t2'') [read_task, walk_task] = [read_task]"
    by (simp add: read_task_def walk_task_def)
  have a: "\<forall>u \<in> set [read_task, walk_task]. t_id u \<noteq> ''t7''"
    by (simp add: read_task_def walk_task_def)
  have n: "data ?s ''2025-01-05'' = None" unfolding ds by (simp add: example_store_def)
  from removeTask_on_listed_date [of ?s "''2025-01-01''" "[read_task, walk_task]" "''t2''"] l f
  have 1: "removeTask ''2025-01-01'' ''t2'' ?s =
     Inr (?s\<lparr>data := example_store(''2025-01-01'' \<mapsto> [read_task])\<rparr>)"
    by (simp add: ds)
  from removeTask_on_listed_date [of ?s "''2025-01-01''" "[read_task, walk_task]" "''t7''"] l a
  have 2: "removeTask ''2025-01-01'' ''t7'' ?s = Inr ?s" by blast
  from removeTask_on_listed_date [of ?s "''2025-01-05''" _ "''t2''"] n
  have 3: "removeTask ''2025-01-05'' ''t2'' ?s = Inl TypeError" by blast
  have a': "t_id read_task \<noteq> ''t7''" "t_id walk_task \<noteq> ''t7''"
    by (simp_all add: read_task_def walk_task_def)
  from l cd w 1 a' 2 n 3 show ?thesis by blast
qed

text \<open>No handler takes an entry out of the store, so a date that has one keeps it.\<close>

lemma dom_import_rows: "dom out \<subseteq> dom (import_rows mkid i ls out)"
proof (induction ls arbitrary: i out)
  case Nil
  show ?case by simp
next
  case (Cons l ls)
  show ?case
  proof (cases "row_date (str_split CHR '','' l) = []")
    case True
    then show ?thesis using Cons.IH [of out "Suc i"] by (simp add: Let_def)
  next
    case False
    let ?out = "out(row_date (str_split CHR '','' l) \<mapsto>
        (case out (row_date (str_split CHR '','' l)) of None \<Rightarrow> [] | Some ts \<Rightarrow> ts) @
        [imported_task (mkid i @ toString (int i)) (str_split CHR '','' l)])"
    have "dom out \<subseteq> dom ?out" by auto
    also have "\<dots> \<subseteq> dom (import_rows mkid (Suc i) ls ?out)" by (rule Cons.IH)
    finally show ?thesis using False by (simp add: Let_def)
  qed
qed

lemma dom_commitTask: "dom (data s) \<subseteq> dom (data (commitTask nid s f))"
  by (auto simp: commitTask_def Let_def split: option.splits)

lemma store_keys_kept:
  assumes "step e s = Inr s'"
  shows "dom (data s) \<subseteq> dom (data s')"
proof (cases e)
  case (Submit nid)
  have "dom (data s) \<subseteq> dom (data (addOrUpdateTask nid s))"
    using dom_commitTask [of "s\<lparr>error := []\<rparr>" nid]
    by (auto simp: addOrUpdateTask_def Let_def split: option.splits)
  with assms Submit show ?thesis by simp
next
  case (ModalConfirm nid)
  with assms dom_commitTask [of s nid] show ?thesis
    by (auto simp: handleModalConfirm_def split: option.splits)
next
  case (ToggleDone date i)
  with assms show ?thesis by (auto simp: toggleDone_def split: option.splits)
next
  case (RemoveTask date i)
  with assms show ?thesis by (auto simp: removeTask_def split: option.splits)
next
  case (ImportCSV mkid csv)
  have "dom (data s) \<subseteq> dom (data (importCSV mkid csv s))"
    using dom_import_rows [of "data s"] by (simp add: importCSV_def Let_def)
  with assms ImportCSV show ?thesis by simp
next
  case (ResetDay c date)
  with assms show ?thesis by (cases c) (auto simp: resetDay_def)
next
  case UsePreviousEnd
  with assms show ?thesis
    by (auto simp: setStartToPreviousEnd_def split: option.splits)
qed (insert assms, auto simp: handleModalCancel_def startEdit_def cancelEdit_def)

section \<open>Editing a task\<close>

lemma edit_target_proposal_edit:
  "editTask s = Some et \<Longrightarrow> t_id et \<noteq> [] \<Longrightarrow> edit_target (proposal s e) = Some (t_id et)"
  by (simp add: edit_target_def proposal_def)

lemma tasksForDate_commitTask_edit:
  "edit_target f = Some eid \<Longrightarrow>
   tasksForDate (commitTask nid s f) (currentDate s) =
     map (\<lambda>t. if t_id t = eid
              then t\<lparr>t_name := trim (p_name f), t_durationMinutes := p_durationMinutes f,
                     t_startTime := p_startTime f, t_endTime := p_endTime f\<rparr>
              else t) (tasksForDate s (currentDate s))"
  by (simp add: tasksForDate_def [of "commitTask nid s f"] data_commitTask_edit)

text \<open>
  The name stored by an edit is the trimmed name, not the name of the proposal as typed.
\<close>

theorem edit_name_trimmed_counterexample:
  "name ((startEdit walk_task (init example_store ''2025-01-01''))\<lparr>name := '' Stroll ''\<rparr>)
     = '' Stroll '' \<and>
   error (addOrUpdateTask ''t9''
           ((startEdit walk_task (init example_store ''2025-01-01''))\<lparr>name := '' Stroll ''\<rparr>)) = [] \<and>
   tasksForDate (addOrUpdateTask ''t9''
           ((startEdit walk_task (init example_store ''2025-01-01''))\<lparr>name := '' Stroll ''\<rparr>))
       ''2025-01-01''
     = [read_task, walk_task\<lparr>t_name := ''Stroll''\<rparr>] \<and>
   ''Stroll'' \<noteq> '' Stroll ''"
proof -
  let ?s = "(startEdit walk_task (init example_store ''2025-01-01''))\<lparr>name := '' Stroll ''\<rparr>"
  have n: "trim (name ?s) \<noteq> []" by (simp add: startEdit_def trim_def is_space_def)
  have tr: "trim (name ?s) = ''Stroll''" by (simp add: startEdit_def trim_def is_space_def)
  have d: "(15::int) = durHours ?s * 60 + durMinutes ?s"
    by (simp add: startEdit_def walk_task_def js_rem_def)
  have t: "timeToMinutes (startTime ?s) = Some (Fin 570)"
    by (simp add: startEdit_def walk_task_def clock_eval)
  have m: "minutesToTime (Some (Fin 585)) = ''09:45''" by (simp add: print_eval)
  have ts: "addOrUpdateTask ''t9'' ?s = commitTask ''t9'' (?s\<lparr>error := []\<rparr>) (proposal ?s ''09:45'')"
    using submit_valid [OF n d _ t, of "''t9''"] m by simp
  have e: "error (addOrUpdateTask ''t9'' ?s) = []" by (simp add: ts error_commitTask)
  have et: "edit_target (proposal ?s ''09:45'') = Some ''t2''"
    using edit_target_proposal_edit [of ?s walk_task "''09:45''"]
    by (simp add: startEdit_def walk_task_def)
  have cd: "currentDate (?s\<lparr>error := []\<rparr>) = ''2025-01-01''"
    by (simp add: startEdit_def init_def)
  have c: "tasksForDate (addOrUpdateTask ''t9'' ?s) ''2025-01-01''
            = [read_task, walk_task\<lparr>t_name := ''Stroll''\<rparr>]"
    unfolding ts using tasksForDate_commitTask_edit [OF et, of "''t9''" "?s\<lparr>error := []\<rparr>"] tr
    by (simp add: cd) (simp add: tasksForDate_def startEdit_def init_def example_store_def
        proposal_def read_task_def walk_task_def js_rem_def)
  show ?thesis using e c by (simp add: startEdit_def)
qed

text \<open>
  Claim C9, as the code has it. When \<open>commitTask\<close> runs as an edit of the identifier
  \<open>eid\<close>, the list of the day keeps its length and order; every task with that
  identifier gets the trimmed name of the proposal and its duration, start time and end
  time, and keeps its identifier and its done flag; every other task is unchanged. A
  submission made while a task with a non-empty identifier is being edited is such an
  edit of that identifier.
\<close>

theorem edit_replaces_fields:
  assumes "edit_target form = Some eid"
    and "old = tasksForDate s (currentDate s)"
    and "new = tasksForDate (commitTask nid s form) (currentDate s)"
  shows "length new = length old \<and>
         (\<forall>i < length old.
            (t_id (old ! i) = eid \<longrightarrow>
               new ! i = (old ! i)\<lparr>t_name := trim (p_name form),
                                   t_durationMinutes := p_durationMinutes form,
                                   t_startTime := p_startTime form,
                                   t_endTime := p_endTime form\<rparr> \<and>
               t_id (new ! i) = t_id (old ! i) \<and> t_done (new ! i) = t_done (old ! i)) \<and>
            (t_id (old ! i) \<noteq> eid \<longrightarrow> new ! i = old ! i)) \<and>
         (\<forall>et e. editTask s = Some et \<and> t_id et \<noteq> [] \<longrightarrow>
            edit_target (proposal s e) = Some (t_id et))"
proof -
  have "new = map (\<lambda>t. if t_id t = eid
              then t\<lparr>t_name := trim (p_name form), t_durationMinutes := p_durationMinutes form,
                     t_startTime := p_startTime form, t_endTime := p_endTime form\<rparr>
              else t) old"
    unfolding assms(2,3) using assms(1) by (rule tasksForDate_commitTask_edit)
  then show ?thesis by (simp add: edit_target_proposal_edit)
qed

theorem edit_replaces_fields_witness:
  "edit_target \<lparr>p_name = '' Stroll '', p_durationMinutes = 20, p_startTime = ''10:00'',
                 p_endTime = ''10:20'', p_isEdit = True, p_editId = Some ''t2''\<rparr> = Some ''t2'' \<and>
   tasksForDate (startEdit walk_task (init example_store ''2025-01-01'')) ''2025-01-01''
     = [read_task, walk_task] \<and>
   tasksForDate (commitTask ''t9'' (startEdit walk_task (init example_store ''2025-01-01''))
       \<lparr>p_name = '' Stroll '', p_durationMinutes = 20, p_startTime = ''10:00'',
         p_endTime = ''10:20'', p_isEdit = True, p_editId = Some ''t2''\<rparr>) ''2025-01-01''
     = [read_task,
        \<lparr>t_id = ''t2'', t_name = ''Stroll'', t_durationMinutes = 20, t_startTime = ''10:00'',
          t_endTime = ''10:20'', t_done = False\<rparr>] \<and>
   editTask (startEdit walk_task (init example_store ''2025-01-01'')) = Some walk_task \<and>
   t_id walk_task \<noteq> [] \<and>
   edit_target (proposal (startEdit walk_task (init example_store ''2025-01-01'')) ''10:20'')
     = Some ''t2''"
proof -
  let ?f = "\<lparr>p_name = '' Stroll '', p_durationMinutes = 20, p_startTime = ''10:00'',
             p_endTime = ''10:20'', p_isEdit = True, p_editId = Some ''t2''\<rparr>"
  let ?s = "startEdit walk_task (init example_store ''2025-01-01'')"
  let ?new = "tasksForDate (commitTask ''t9'' ?s ?f) ''2025-01-01''"
  have et: "edit_target ?f = Some ''t2''" by (simp add: edit_target_def)
  have cd: "currentDate ?s = ''2025-01-01''" by (simp add: init_def startEdit_def)
  have old: "[read_task, walk_task] = tasksForDate ?s (currentDate ?s)"
    by (simp add: init_def startEdit_def tasksForDate_def example_store_def)
  have new: "?new = tasksForDate (commitTask ''t9'' ?s ?f) (currentDate ?s)" by (simp add: cd)
  have ed: "editTask ?s = Some walk_task" "t_id walk_task \<noteq> []" "t_id walk_task = ''t2''"
    by (simp_all add: startEdit_def walk_task_def)
  note g = edit_replaces_fields [OF et old new]
  from g have len: "length ?new = 2" by simp
  from g have "editTask ?s = Some walk_task \<and> t_id walk_task \<noteq> [] \<longrightarrow>
      edit_target (proposal ?s ''10:20'') = Some (t_id walk_task)"
    by blast
  with ed have pr: "edit_target (proposal ?s ''10:20'') = Some ''t2''" by simp
  from g have "\<forall>i < 2. (t_id ([read_task, walk_task] ! i) = ''t2'' \<longrightarrow>
       ?new ! i = ([read_task, walk_task] ! i)\<lparr>t_name := trim (p_name ?f),
                                   t_durationMinutes := p_durationMinutes ?f,
                                   t_startTime := p_startTime ?f,
                                   t_endTime := p_endTime ?f\<rparr>) \<and>
       (t_id ([read_task, walk_task] ! i) \<noteq> ''t2'' \<longrightarrow> ?new ! i = [read_task, walk_task] ! i)"
    by simp
  then have 0: "?new ! 0 = read_task"
    and 1: "?new ! 1 = walk_task\<lparr>t_name := ''Stroll'', t_durationMinutes := 20,
                                  t_startTime := ''10:00'', t_endTime := ''10:20''\<rparr>"
    by (simp_all add: read_task_def walk_task_def trim_def is_space_def)
  have "?new = [?new ! 0, ?new ! 1]"
    using len by (auto simp: list_eq_iff_nth_eq less_Suc_eq numeral_2_eq_2)
  then have "?new = [read_task, walk_task\<lparr>t_name := ''Stroll'', t_durationMinutes := 20,
                                  t_startTime := ''10:00'', t_endTime := ''10:20''\<rparr>]"
    using 0 1 by simp
  then have new': "?new = [read_task,
        \<lparr>t_id = ''t2'', t_name = ''Stroll'', t_durationMinutes = 20, t_startTime = ''10:00'',
          t_endTime = ''10:20'', t_done = False\<rparr>]"
    by (simp add: walk_task_def)
  have old': "tasksForDate ?s ''2025-01-01'' = [read_task, walk_task]"
    using old by (simp add: cd)
  from et old' new' ed(1,2) pr show ?thesis by blast
qed

section \<open>Other dates are left alone\<close>

lemma data_commitTask_other: "d \<noteq> currentDate s \<Longrightarrow> data (commitTask nid s f) d = data s d"
  by (simp add: commitTask_def Let_def split: option.splits)

lemma data_addOrUpdateTask_other:
  "d \<noteq> currentDate s \<Longrightarrow> data (addOrUpdateTask nid s) d = data s d"
  by (simp add: addOrUpdateTask_def Let_def data_commitTask_other split: option.splits)

lemma data_addOrUpdateTask_js_other:
  "d \<noteq> currentDate s \<Longrightarrow> data (addOrUpdateTask_js nid s) d = data s d"
  by (simp add: addOrUpdateTask_js_def Let_def split: option.splits)

lemma data_handleModalConfirm_other:
  "d \<noteq> currentDate s \<Longrightarrow> data (handleModalConfirm nid s) d = data s d"
  by (simp add: handleModalConfirm_def data_commitTask_other split: option.splits)

text \<open>
  Claim C10. For every date \<open>d\<close> other than the date an operation is applied to, the
  list stored for \<open>d\<close> is the same after the operation: for a commit, a submission of
  either component and a confirmation on the current date, for \<open>toggleDone\<close> and
  \<open>removeTask\<close> whenever they return, for \<open>resetDay\<close>, and for a cancellation.
\<close>

theorem other_dates_unchanged:
  assumes "d \<noteq> date"
  shows "(currentDate s = date \<longrightarrow>
            data (commitTask nid s f) d = data s d \<and>
            data (addOrUpdateTask nid s) d = data s d \<and>
            data (addOrUpdateTask_js nid s) d = data s d \<and>
            data (handleModalConfirm nid s) d = data s d) \<and>
         (\<forall>s'. toggleDone date i s = Inr s' \<longrightarrow> data s' d = data s d) \<and>
         (\<forall>s'. removeTask date i s = Inr s' \<longrightarrow> data s' d = data s d) \<and>
         data (resetDay c date s) d = data s d \<and>
         data (handleModalCancel s) d = data s d"
proof -
  have 1: "currentDate s = date \<longrightarrow>
            data (commitTask nid s f) d = data s d \<and>
            data (addOrUpdateTask nid s) d = data s d \<and>
            data (addOrUpdateTask_js nid s) d = data s d \<and>
            data (handleModalConfirm nid s) d = data s d"
    using assms
    by (simp add: data_commitTask_other data_addOrUpdateTask_other
        data_addOrUpdateTask_js_other data_handleModalConfirm_other)
  have 2: "\<forall>s'. toggleDone date i s = Inr s' \<longrightarrow> data s' d = data s d"
    using assms by (auto simp: toggleDone_def split: option.splits)
  have 3: "\<forall>s'. removeTask date i s = Inr s' \<longrightarrow> data s' d = data s d"
    using assms by (auto simp: removeTask_def split: option.splits)
  have 4: "data (resetDay c date s) d = data s d"
    using assms by (simp add: resetDay_def)
  have 5: "data (handleModalCancel s) d = data s d"
    by (simp add: handleModalCancel_def)
  from 1 2 3 4 5 show ?thesis by blast
qed

theorem other_dates_unchanged_witness:
  "''2025-01-02'' \<noteq> ''2025-01-01'' \<and>
   currentDate (form_state example_store ''Nap'' ''10:00'' 0 10) = ''2025-01-01'' \<and>
   toggleDone ''2025-01-01'' ''t2'' (form_state example_store ''Nap'' ''10:00'' 0 10) =
     Inr ((form_state example_store ''Nap'' ''10:00'' 0 10)
            \<lparr>data := example_store(''2025-01-01'' \<mapsto> [read_task, walk_task\<lparr>t_done := True\<rparr>])\<rparr>) \<and>
   data ((form_state example_store ''Nap'' ''10:00'' 0 10)
            \<lparr>data := example_store(''2025-01-01'' \<mapsto> [read_task, walk_task\<lparr>t_done := True\<rparr>])\<rparr>)
        ''2025-01-02'' = Some [read_task] \<and>
   removeTask ''2025-01-01'' ''t2'' (form_state example_store ''Nap'' ''10:00'' 0 10) =
     Inr ((form_state example_store ''Nap'' ''10:00'' 0 10)
            \<lparr>data := example_store(''2025-01-01'' \<mapsto> [read_task])\<rparr>) \<and>
   data ((form_state example_store ''Nap'' ''10:00'' 0 10)
            \<lparr>data := example_store(''2025-01-01'' \<mapsto> [read_task])\<rparr>)
        ''2025-01-02'' = Some [read_task] \<and>
   data (resetDay True ''2025-01-01'' (form_state example_store ''Nap'' ''10:00'' 0 10))
        ''2025-01-01'' = Some [] \<and>
   data (resetDay True ''2025-01-01'' (form_state example_store ''Nap'' ''10:00'' 0 10))
        ''2025-01-02'' = Some [read_task] \<and>
   length (tasksForDate (addOrUpdateTask ''t3'' (form_state example_store ''Nap'' ''10:00'' 0 10))
        ''2025-01-01'') = 3 \<and>
   data (addOrUpdateTask ''t3'' (form_state example_store ''Nap'' ''10:00'' 0 10))
        ''2025-01-02'' = Some [read_task]"
proof -
  let ?s = "form_state example_store ''Nap'' ''10:00'' 0 10"
  let ?s1 = "?s\<lparr>data := example_store(''2025-01-01'' \<mapsto> [read_task, walk_task\<lparr>t_done := True\<rparr>])\<rparr>"
  let ?s2 = "?s\<lparr>data := example_store(''2025-01-01'' \<mapsto> [read_task])\<rparr>"
  have ne: "''2025-01-02'' \<noteq> ''2025-01-01''" by simp
  have cd: "currentDate ?s = ''2025-01-01''" by (simp add: form_state_def init_def)
  have ds: "data ?s = example_store" by (simp add: form_state_def init_def)
  have o: "data ?s ''2025-01-02'' = Some [read_task]"
    unfolding ds by (simp add: example_store_def)
  have o1: "data ?s ''2025-01-01'' = Some [read_task, walk_task]"
    unfolding ds by (simp add: example_store_def)
  have tg: "toggleDone ''2025-01-01'' ''t2'' ?s = Inr ?s1"
    by (simp add: toggleDone_def o1 read_task_def walk_task_def) (simp add: ds)
  have rm: "removeTask ''2025-01-01'' ''t2'' ?s = Inr ?s2"
    by (simp add: removeTask_def o1 read_task_def walk_task_def) (simp add: ds)
  note g = other_dates_unchanged [OF ne, of ?s "''t3''" _ "''t2''" True]
  from g tg o have a: "data ?s1 ''2025-01-02'' = Some [read_task]" by simp
  from g rm o have b: "data ?s2 ''2025-01-02'' = Some [read_task]" by simp
  from g o have c: "data (resetDay True ''2025-01-01'' ?s) ''2025-01-02'' = Some [read_task]"
    by simp
  from g cd o have e: "data (addOrUpdateTask ''t3'' ?s) ''2025-01-02'' = Some [read_task]"
    by simp
  have r: "data (resetDay True ''2025-01-01'' ?s) ''2025-01-01'' = Some []"
    by (simp add: resetDay_def)
  have n: "trim (name ?s) \<noteq> []" by (simp add: state_eval)
  have d: "(10::int) = durHours ?s * 60 + durMinutes ?s" by (simp add: state_eval)
  have t: "timeToMinutes (startTime ?s) = Some (Fin 600)" by (simp add: state_eval clock_eval)
  have ts: "addOrUpdateTask ''t3'' ?s =
      commitTask ''t3'' (?s\<lparr>error := []\<rparr>) (proposal ?s (minutesToTime (Some (Fin 610))))"
    using submit_valid [OF n d _ t, of "''t3''"] by simp
  have et: "edit_target (proposal ?s e) = None" for e
    by (rule edit_target_proposal_new) (simp add: state_eval)
  have l: "length (tasksForDate (addOrUpdateTask ''t3'' ?s) ''2025-01-01'') = 3"
    unfolding ts by (simp add: tasksForDate_def data_commitTask_new [OF et]) (simp add: state_eval)
  from ne cd tg rm a b c e r l show ?thesis by blast
qed

section \<open>Positive durations\<close>






















end
